theory Spec2Isabelle
  imports Complex_Main
begin

section \<open>Freelance billing system: entities, repositories and services\<close>

text \<open>
  A shallow embedding of the Python sources under \<^verbatim>\<open>models/\<close>, \<^verbatim>\<open>repositories/\<close>,
  \<^verbatim>\<open>services/\<close> and \<^verbatim>\<open>cli/report_menu.py\<close>.

  Conventions.
  \<^item> Monetary values (Python \<^verbatim>\<open>float\<close>, SQLite \<^verbatim>\<open>REAL\<close>, \<^verbatim>\<open>Decimal\<close>) are exact
    rationals: rounding of binary floating point is not part of this model.
  \<^item> A \<^verbatim>\<open>date\<close> is its day ordinal, so that \<^verbatim>\<open>(a - b).days\<close> is integer subtraction;
    a \<^verbatim>\<open>datetime\<close> is an integer clock value. What the code reads from its
    surroundings (the clock, the settings singleton) is a record \<open>env\<close> passed to every
    function that reads it.
  \<^item> An exception is a value of \<open>error\<close>; a method that mutates \<^verbatim>\<open>self\<close> returns the
    object after the call next to its outcome, a service operation returns the database
    after the call next to its outcome.
  \<^item> The store itself does not fail: a statement that SQLite would refuse
    (\<^verbatim>\<open>sqlite3.Error\<close>, wrapped as \<^verbatim>\<open>DatabaseError\<close>) is not part of this model.
  \<^item> Members of different enumerations that share a name carry the name of their
    enumeration: \<open>PAYMENT_CANCELLED\<close> is \<^verbatim>\<open>PaymentStatus.CANCELLED\<close>, \<open>PROJECT_COMPLETED\<close>
    and \<open>PROJECT_CANCELLED\<close> are members of \<^verbatim>\<open>ProjectStatus\<close>.
\<close>

subsection \<open>Exceptions\<close>

text \<open>
  The classes of \<^verbatim>\<open>utils/exceptions.py\<close>, \<^verbatim>\<open>PaymentNotFoundError\<close> (imported by
  \<^verbatim>\<open>payment_service.py\<close>), and the built-in exceptions that the modelled code paths
  raise. \<open>InvalidOperation\<close> is the error name used by the specification; none of the
  modelled functions raises it.
\<close>

datatype error =
    ValidationError
  | ClientNotFoundError
  | ProjectNotFoundError
  | InvoiceNotFoundError
  | PaymentNotFoundError
  | DatabaseError
  | AttributeError
  | TypeError
  | InvalidOperation

type_synonym money = rat
type_synonym date = int
type_synonym datetime = int

subsection \<open>Python truthiness and \<^verbatim>\<open>str.strip\<close>\<close>

text \<open>
  A string is the list of its code points, and a \<open>char\<close> is a code point below 256.
  \<^verbatim>\<open>str.strip()\<close> removes leading and trailing whitespace; these are the code points
  below 256 for which \<^verbatim>\<open>str.isspace\<close> holds, U+0085 and U+00A0 among them.
\<close>

definition is_space :: "char \<Rightarrow> bool" where
  "is_space c = (c \<in> set [CHR '' '', CHR 0x09, CHR 0x0A, CHR 0x0B, CHR 0x0C, CHR 0x0D,
                           CHR 0x1C, CHR 0x1D, CHR 0x1E, CHR 0x1F, CHR 0x85, CHR 0xA0])"

definition strip :: "string \<Rightarrow> string" where
  "strip s = rev (dropWhile is_space (rev (dropWhile is_space s)))"

text \<open>\<^verbatim>\<open>bool(x)\<close> for an \<^verbatim>\<open>Optional[float]\<close> and for an \<^verbatim>\<open>Optional[str]\<close>.\<close>

definition truthy_num :: "money option \<Rightarrow> bool" where
  "truthy_num x = (case x of None \<Rightarrow> False | Some v \<Rightarrow> v \<noteq> 0)"

definition truthy_str :: "string option \<Rightarrow> bool" where
  "truthy_str x = (case x of None \<Rightarrow> False | Some s \<Rightarrow> s \<noteq> [])"

subsection \<open>The surroundings: clock and \<^verbatim>\<open>config/settings.py\<close>\<close>

text \<open>
  \<open>env_now\<close> is \<^verbatim>\<open>datetime.now()\<close> (and SQLite's \<^verbatim>\<open>CURRENT_TIMESTAMP\<close>), \<open>env_today\<close> is
  \<^verbatim>\<open>date.today()\<close>, \<open>env_now_stamp\<close> is \<^verbatim>\<open>datetime.now().strftime("%Y%m%d%H%M%S")\<close>;
  \<open>env_tax_rate\<close> and \<open>env_invoice_prefix\<close> are \<^verbatim>\<open>settings.invoice.tax_rate\<close> and
  \<^verbatim>\<open>settings.invoice.invoice_prefix\<close>.
\<close>

record env =
  env_now :: datetime
  env_today :: date
  env_now_stamp :: string
  env_tax_rate :: money
  env_invoice_prefix :: string

text \<open>The values \<^verbatim>\<open>InvoiceConfig\<close> declares: an 18 per cent tax rate and the prefix INV.\<close>

definition default_settings :: "datetime \<Rightarrow> date \<Rightarrow> string \<Rightarrow> env" where
  "default_settings n d s =
     \<lparr>env_now = n, env_today = d, env_now_stamp = s,
      env_tax_rate = 18 / 100, env_invoice_prefix = ''INV''\<rparr>"

subsection \<open>\<^verbatim>\<open>models/payment.py\<close>\<close>

datatype PaymentMethod = CASH | BANK_TRANSFER | CHEQUE | UPI | CARD | OTHER

datatype PaymentStatus = PENDING | COMPLETED | FAILED | PAYMENT_CANCELLED

text \<open>
  The dataclass fields, base class first. \<open>p_transaction_id\<close> is not a field of the
  dataclass: it is the instance attribute \<^verbatim>\<open>transaction_id\<close> that the payment service
  assigns and the payment repository reads. \<open>None\<close> means that the object has no such
  attribute, which is how every constructor leaves it.
\<close>

record Payment =
  p_id :: "int option"
  p_created_at :: "datetime option"
  p_updated_at :: "datetime option"
  p_invoice_id :: int
  p_client_id :: int
  p_amount :: money
  p_payment_date :: date
  p_payment_method :: "PaymentMethod option"
  p_status :: PaymentStatus
  p_reference_number :: "string option"
  p_notes :: "string option"
  p_transaction_fee :: money
  p_net_amount :: money
  p_transaction_id :: "string option option"

definition Payment_fields :: "string list" where
  "Payment_fields =
     [''id'', ''created_at'', ''updated_at'', ''invoice_id'', ''client_id'', ''amount'',
      ''payment_date'', ''payment_method'', ''status'', ''reference_number'', ''notes'',
      ''transaction_fee'', ''net_amount'']"

text \<open>The field defaults of the dataclass.\<close>

definition Payment_defaults :: "env \<Rightarrow> Payment" where
  "Payment_defaults e =
     \<lparr>p_id = None, p_created_at = Some (env_now e), p_updated_at = Some (env_now e),
      p_invoice_id = 0, p_client_id = 0, p_amount = 0, p_payment_date = env_today e,
      p_payment_method = Some BANK_TRANSFER, p_status = PENDING,
      p_reference_number = None, p_notes = None, p_transaction_fee = 0, p_net_amount = 0,
      p_transaction_id = None\<rparr>"

definition Payment_update_timestamp :: "env \<Rightarrow> Payment \<Rightarrow> Payment" where
  "Payment_update_timestamp e p = p\<lparr>p_updated_at := Some (env_now e)\<rparr>"

definition calculate_net_amount :: "env \<Rightarrow> Payment \<Rightarrow> Payment" where
  "calculate_net_amount e p =
     Payment_update_timestamp e (p\<lparr>p_net_amount := p_amount p - p_transaction_fee p\<rparr>)"

text \<open>\<^verbatim>\<open>Payment.__post_init__\<close>: the three checks in source order, then the net amount.\<close>

definition Payment_post_init :: "env \<Rightarrow> Payment \<Rightarrow> error + Payment" where
  "Payment_post_init e p =
     (if p_invoice_id p \<le> 0 then Inl ValidationError
      else if p_client_id p \<le> 0 then Inl ValidationError
      else if p_amount p \<le> 0 then Inl ValidationError
      else Inr (calculate_net_amount e p))"

text \<open>
  The generated constructor \<^verbatim>\<open>Payment(**kwargs)\<close>: \<open>kwargs\<close> are the keyword names of the
  call, \<open>p\<close> holds the values they bind over the defaults. A keyword that is not a field
  is a \<^verbatim>\<open>TypeError\<close>, raised before \<^verbatim>\<open>__post_init__\<close> runs.
\<close>

definition Payment_init :: "env \<Rightarrow> string list \<Rightarrow> Payment \<Rightarrow> error + Payment" where
  "Payment_init e kwargs p =
     (if list_all (\<lambda>k. k \<in> set Payment_fields) kwargs then Payment_post_init e p
      else Inl TypeError)"

text \<open>
  \<^verbatim>\<open>Payment.cancel_payment(reason)\<close>. The outcome is paired with the object after the
  call: the exception is raised before any field is written.
\<close>

definition cancel_payment :: "env \<Rightarrow> string option \<Rightarrow> Payment \<Rightarrow> (error + unit) \<times> Payment" where
  "cancel_payment e reason p =
     (if p_status p = COMPLETED then (Inl ValidationError, p)
      else
        let p1 = p\<lparr>p_status := PAYMENT_CANCELLED\<rparr>;
            p2 = (if truthy_str reason
                  then p1\<lparr>p_notes :=
                         Some (if \<not> truthy_str (p_notes p1)
                               then ''Cancelled: '' @ the reason
                               else the (p_notes p1) @ ''. Cancelled: '' @ the reason)\<rparr>
                  else p1)
        in (Inr (), Payment_update_timestamp e p2))"

text \<open>\<^verbatim>\<open>Payment.mark_as_failed(reason)\<close>, which never raises.\<close>

definition mark_as_failed :: "env \<Rightarrow> string option \<Rightarrow> Payment \<Rightarrow> Payment" where
  "mark_as_failed e reason p =
     (let p1 = p\<lparr>p_status := FAILED\<rparr>;
          p2 = (if truthy_str reason
                then p1\<lparr>p_notes :=
                       Some (if \<not> truthy_str (p_notes p1)
                             then ''Failed: '' @ the reason
                             else the (p_notes p1) @ ''. Failed: '' @ the reason)\<rparr>
                else p1)
      in Payment_update_timestamp e p2)"

subsection \<open>\<^verbatim>\<open>models/project.py\<close>\<close>

datatype ProjectStatus = ACTIVE | PROJECT_COMPLETED | ON_HOLD | PROJECT_CANCELLED

record Project =
  pr_id :: "int option"
  pr_created_at :: "datetime option"
  pr_updated_at :: "datetime option"
  pr_client_id :: int
  pr_name :: string
  pr_description :: "string option"
  pr_hourly_rate :: "money option"
  pr_fixed_rate :: "money option"
  pr_hours_worked :: money
  pr_status :: ProjectStatus

text \<open>
  \<^verbatim>\<open>Project.__post_init__\<close>, run by the dataclass constructor on the field values it was
  given: construction returns the object with exactly those fields, or raises.
\<close>

definition Project_post_init :: "Project \<Rightarrow> error + Project" where
  "Project_post_init p =
     (if strip (pr_name p) = [] then Inl ValidationError
      else if pr_client_id p \<le> 0 then Inl ValidationError
      else if \<not> truthy_num (pr_hourly_rate p) \<and> \<not> truthy_num (pr_fixed_rate p)
        then Inl ValidationError
      else if truthy_num (pr_hourly_rate p) \<and> the (pr_hourly_rate p) < 0
        then Inl ValidationError
      else if truthy_num (pr_fixed_rate p) \<and> the (pr_fixed_rate p) < 0
        then Inl ValidationError
      else Inr p)"

text \<open>
  The pricing invariant in the specification's words: exactly one of the two rates is set
  (not \<^verbatim>\<open>None\<close>), and the one that is set is greater than 0.
\<close>

definition pricing_invariant :: "Project \<Rightarrow> bool" where
  "pricing_invariant p =
     (case (pr_hourly_rate p, pr_fixed_rate p) of
        (Some h, None) \<Rightarrow> 0 < h
      | (None, Some f) \<Rightarrow> 0 < f
      | _ \<Rightarrow> False)"

text \<open>
  The pricing checks of \<^verbatim>\<open>ProjectService.create_project\<close>, which run before the service
  calls the constructor: neither rate, both rates, a non-positive rate.
\<close>

definition create_project_pricing_check :: "money option \<Rightarrow> money option \<Rightarrow> error + unit" where
  "create_project_pricing_check hourly_rate fixed_rate =
     (if \<not> truthy_num hourly_rate \<and> \<not> truthy_num fixed_rate then Inl ValidationError
      else if truthy_num hourly_rate \<and> truthy_num fixed_rate then Inl ValidationError
      else if truthy_num hourly_rate \<and> the hourly_rate \<le> 0 then Inl ValidationError
      else if truthy_num fixed_rate \<and> the fixed_rate \<le> 0 then Inl ValidationError
      else Inr ())"

subsection \<open>\<^verbatim>\<open>models/invoice.py\<close>\<close>

text \<open>The enumeration has these five members and no other.\<close>

datatype InvoiceStatus = DRAFT | SENT | PAID | OVERDUE | CANCELLED

text \<open>
  \<^verbatim>\<open>payment_service.py\<close> evaluates the expression \<^verbatim>\<open>InvoiceStatus.PARTIALLY_PAID\<close>. The
  enumeration has no such member, so the attribute lookup raises.
\<close>

definition InvoiceStatus_PARTIALLY_PAID :: "error + InvoiceStatus" where
  "InvoiceStatus_PARTIALLY_PAID = Inl AttributeError"

record InvoiceItem =
  it_description :: string
  it_quantity :: money
  it_rate :: money
  it_amount :: money

text \<open>\<^verbatim>\<open>InvoiceItem(description, quantity, rate)\<close>: the amount is set by \<^verbatim>\<open>__post_init__\<close>.\<close>

definition InvoiceItem_init :: "string \<Rightarrow> money \<Rightarrow> money \<Rightarrow> InvoiceItem" where
  "InvoiceItem_init d q r =
     \<lparr>it_description = d, it_quantity = q, it_rate = r, it_amount = q * r\<rparr>"

record Invoice =
  i_id :: "int option"
  i_created_at :: "datetime option"
  i_updated_at :: "datetime option"
  i_invoice_number :: string
  i_client_id :: int
  i_project_id :: "int option"
  i_items :: "InvoiceItem list"
  i_subtotal :: money
  i_tax_amount :: money
  i_total_amount :: money
  i_status :: InvoiceStatus
  i_issue_date :: date
  i_due_date :: date
  i_notes :: "string option"

text \<open>The field defaults of the dataclass.\<close>

definition Invoice_defaults :: "env \<Rightarrow> Invoice" where
  "Invoice_defaults e =
     \<lparr>i_id = None, i_created_at = Some (env_now e), i_updated_at = Some (env_now e),
      i_invoice_number = [], i_client_id = 0, i_project_id = None, i_items = [],
      i_subtotal = 0, i_tax_amount = 0, i_total_amount = 0, i_status = DRAFT,
      i_issue_date = env_today e, i_due_date = env_today e, i_notes = None\<rparr>"

definition Invoice_update_timestamp :: "env \<Rightarrow> Invoice \<Rightarrow> Invoice" where
  "Invoice_update_timestamp e invoice = invoice\<lparr>i_updated_at := Some (env_now e)\<rparr>"

definition generate_invoice_number :: "env \<Rightarrow> string" where
  "generate_invoice_number e = env_invoice_prefix e @ ''-'' @ env_now_stamp e"

text \<open>
  \<^verbatim>\<open>Invoice.calculate_totals\<close>. Python's \<^verbatim>\<open>sum\<close> starts from 0 and adds the amounts from
  left to right, in the order of the item list.
\<close>

definition calculate_totals :: "env \<Rightarrow> Invoice \<Rightarrow> Invoice" where
  "calculate_totals e invoice =
     (let subtotal = foldl (+) 0 (map it_amount (i_items invoice));
          tax_amount = subtotal * env_tax_rate e;
          total_amount = subtotal + tax_amount
      in Invoice_update_timestamp e
           (invoice\<lparr>i_subtotal := subtotal, i_tax_amount := tax_amount,
                 i_total_amount := total_amount\<rparr>))"

text \<open>\<^verbatim>\<open>Invoice.__post_init__\<close>, run by the constructor on the field values it was given.\<close>

definition Invoice_post_init :: "env \<Rightarrow> Invoice \<Rightarrow> error + Invoice" where
  "Invoice_post_init e invoice =
     (let invoice1 = (if i_invoice_number invoice = []
                  then invoice\<lparr>i_invoice_number := generate_invoice_number e\<rparr> else invoice)
      in if i_client_id invoice1 \<le> 0 then Inl ValidationError
         else Inr (calculate_totals e invoice1))"

text \<open>\<^verbatim>\<open>Invoice.add_item\<close>: the outcome, and the invoice object after the call.\<close>

definition add_item :: "env \<Rightarrow> string \<Rightarrow> money \<Rightarrow> money \<Rightarrow> Invoice \<Rightarrow> (error + unit) \<times> Invoice" where
  "add_item e description quantity rate invoice =
     (if strip description = [] then (Inl ValidationError, invoice)
      else if quantity \<le> 0 then (Inl ValidationError, invoice)
      else if rate < 0 then (Inl ValidationError, invoice)
      else (Inr (),
            calculate_totals e
              (invoice\<lparr>i_items := i_items invoice @ [InvoiceItem_init description quantity rate]\<rparr>)))"

definition mark_as_paid :: "env \<Rightarrow> Invoice \<Rightarrow> Invoice" where
  "mark_as_paid e invoice = Invoice_update_timestamp e (invoice\<lparr>i_status := PAID\<rparr>)"

subsection \<open>\<^verbatim>\<open>config/database.py\<close>: the relations\<close>

text \<open>
  One record per row, with the columns of the \<^verbatim>\<open>CREATE TABLE\<close> statements; a table is the
  list of its rows. The \<^verbatim>\<open>status\<close> column of \<^verbatim>\<open>invoices\<close> holds the value of an
  \<^verbatim>\<open>InvoiceStatus\<close> member, which is all that the repository writes into it. The
  \<^verbatim>\<open>payments\<close> relation has no \<^verbatim>\<open>client_id\<close> and no \<^verbatim>\<open>status\<close> column.
\<close>

record invoice_row =
  r_id :: int
  r_invoice_number :: string
  r_client_id :: int
  r_project_id :: "int option"
  r_subtotal :: money
  r_tax_amount :: money
  r_total_amount :: money
  r_status :: InvoiceStatus
  r_issue_date :: date
  r_due_date :: date
  r_notes :: "string option"
  r_created_at :: datetime
  r_updated_at :: datetime

record item_row =
  ir_id :: int
  ir_invoice_id :: int
  ir_description :: string
  ir_quantity :: money
  ir_rate :: money
  ir_amount :: money

record payment_row =
  pay_id :: int
  pay_invoice_id :: int
  pay_amount :: money
  pay_payment_date :: date
  pay_payment_method :: "PaymentMethod option"
  pay_transaction_id :: "string option"
  pay_notes :: "string option"
  pay_created_at :: datetime

text \<open>\<open>payments_seq\<close> is the \<^verbatim>\<open>AUTOINCREMENT\<close> counter of the payments relation.\<close>

record database =
  invoices :: "invoice_row list"
  invoice_items :: "item_row list"
  payments :: "payment_row list"
  payments_seq :: int

definition next_rowid :: "int \<Rightarrow> int list \<Rightarrow> int" where
  "next_rowid seq ids = fold max ids seq + 1"

subsection \<open>\<^verbatim>\<open>repositories/invoice_repository.py\<close>\<close>

text \<open>
  \<^verbatim>\<open>Invoice.from_dict\<close> passes the row's columns to the constructor and leaves \<^verbatim>\<open>items\<close> at
  its default, the empty list; the constructor then runs \<^verbatim>\<open>__post_init__\<close>, which
  recomputes the three totals from that empty list.
\<close>

definition Invoice_from_dict :: "env \<Rightarrow> invoice_row \<Rightarrow> error + Invoice" where
  "Invoice_from_dict e row =
     Invoice_post_init e
       \<lparr>i_id = Some (r_id row), i_created_at = Some (r_created_at row),
        i_updated_at = Some (r_updated_at row), i_invoice_number = r_invoice_number row,
        i_client_id = r_client_id row, i_project_id = r_project_id row, i_items = [],
        i_subtotal = r_subtotal row, i_tax_amount = r_tax_amount row,
        i_total_amount = r_total_amount row, i_status = r_status row,
        i_issue_date = r_issue_date row, i_due_date = r_due_date row,
        i_notes = r_notes row\<rparr>"

text \<open>\<^verbatim>\<open>_load_invoice_items\<close>: the rows of the invoice, ordered by id, rebuilt as items.\<close>

definition load_invoice_items :: "database \<Rightarrow> int \<Rightarrow> InvoiceItem list" where
  "load_invoice_items db invoice_id =
     map (\<lambda>r. InvoiceItem_init (ir_description r) (ir_quantity r) (ir_rate r))
       (sort_key ir_id (filter (\<lambda>r. ir_invoice_id r = invoice_id) (invoice_items db)))"

text \<open>\<^verbatim>\<open>_row_to_model\<close>: the items are attached after construction, the totals stay.\<close>

definition Invoice_row_to_model :: "env \<Rightarrow> database \<Rightarrow> invoice_row \<Rightarrow> error + Invoice" where
  "Invoice_row_to_model e db row =
     (case Invoice_from_dict e row of
        Inl err \<Rightarrow> Inl err
      | Inr invoice \<Rightarrow> Inr (invoice\<lparr>i_items := load_invoice_items db (r_id row)\<rparr>))"

definition InvoiceRepository_find_by_id :: "env \<Rightarrow> database \<Rightarrow> int \<Rightarrow> error + Invoice option" where
  "InvoiceRepository_find_by_id e db invoice_id =
     (case find (\<lambda>r. r_id r = invoice_id) (invoices db) of
        None \<Rightarrow> Inr None
      | Some row \<Rightarrow>
          (case Invoice_row_to_model e db row of
             Inl err \<Rightarrow> Inl err
           | Inr invoice \<Rightarrow> Inr (Some invoice)))"

text \<open>
  \<^verbatim>\<open>update_status\<close>: the \<^verbatim>\<open>UPDATE\<close> statement. (The method also returns whether a row
  matched; no caller reads that.)
\<close>

definition update_status :: "env \<Rightarrow> database \<Rightarrow> int \<Rightarrow> InvoiceStatus \<Rightarrow> database" where
  "update_status e db invoice_id st =
     db\<lparr>invoices :=
          map (\<lambda>r. if r_id r = invoice_id
                    then r\<lparr>r_status := st, r_updated_at := env_now e\<rparr> else r)
            (invoices db)\<rparr>"

text \<open>
  \<^verbatim>\<open>InvoiceService.add_invoice_item\<close> calls \<^verbatim>\<open>self.repository.update(invoice)\<close>. Neither
  \<^verbatim>\<open>InvoiceRepository\<close> nor \<^verbatim>\<open>BaseRepository\<close> defines \<^verbatim>\<open>update\<close>, so the attribute lookup
  raises and nothing is written.
\<close>

definition InvoiceRepository_update :: "database \<Rightarrow> Invoice \<Rightarrow> (error + Invoice) \<times> database" where
  "InvoiceRepository_update db invoice = (Inl AttributeError, db)"

subsection \<open>\<^verbatim>\<open>repositories/payment_repository.py\<close>\<close>

text \<open>
  \<^verbatim>\<open>Payment.from_dict\<close> on a row of the payments relation: the keys \<^verbatim>\<open>client_id\<close>,
  \<^verbatim>\<open>status\<close>, \<^verbatim>\<open>reference_number\<close>, \<^verbatim>\<open>transaction_fee\<close>, \<^verbatim>\<open>net_amount\<close> and
  \<^verbatim>\<open>updated_at\<close> are not columns, so \<^verbatim>\<open>data.get\<close> returns its default for them.
  \<open>Payment_of_row\<close> is the argument list of the constructor call.
\<close>

definition Payment_of_row :: "payment_row \<Rightarrow> Payment" where
  "Payment_of_row row =
     \<lparr>p_id = Some (pay_id row), p_created_at = Some (pay_created_at row), p_updated_at = None,
      p_invoice_id = pay_invoice_id row, p_client_id = 0, p_amount = pay_amount row,
      p_payment_date = pay_payment_date row, p_payment_method = pay_payment_method row,
      p_status = PENDING, p_reference_number = None, p_notes = pay_notes row,
      p_transaction_fee = 0, p_net_amount = 0, p_transaction_id = None\<rparr>"

definition Payment_from_dict :: "env \<Rightarrow> payment_row \<Rightarrow> error + Payment" where
  "Payment_from_dict e row = Payment_post_init e (Payment_of_row row)"

definition PaymentRepository_find_by_id :: "env \<Rightarrow> database \<Rightarrow> int \<Rightarrow> error + Payment option" where
  "PaymentRepository_find_by_id e db payment_id =
     (case find (\<lambda>r. pay_id r = payment_id) (payments db) of
        None \<Rightarrow> Inr None
      | Some row \<Rightarrow>
          (case Payment_from_dict e row of
             Inl err \<Rightarrow> Inl err
           | Inr payment \<Rightarrow> Inr (Some payment)))"

definition find_by_transaction_id :: "env \<Rightarrow> database \<Rightarrow> string \<Rightarrow> error + Payment option" where
  "find_by_transaction_id e db transaction_id =
     (case find (\<lambda>r. pay_transaction_id r = Some transaction_id) (payments db) of
        None \<Rightarrow> Inr None
      | Some row \<Rightarrow>
          (case Payment_from_dict e row of
             Inl err \<Rightarrow> Inl err
           | Inr payment \<Rightarrow> Inr (Some payment)))"

text \<open>
  \<^verbatim>\<open>get_total_paid_for_invoice\<close>: \<^verbatim>\<open>SELECT SUM(amount) FROM payments WHERE invoice_id = ?\<close>,
  and 0.0 when the sum is \<^verbatim>\<open>NULL\<close> or zero.
\<close>

definition get_total_paid_for_invoice :: "database \<Rightarrow> int \<Rightarrow> money" where
  "get_total_paid_for_invoice db invoice_id =
     sum_list (map pay_amount (filter (\<lambda>r. pay_invoice_id r = invoice_id) (payments db)))"

text \<open>
  \<^verbatim>\<open>create\<close> and \<^verbatim>\<open>update\<close> build the parameter tuple of their statement first; the tuple
  reads \<^verbatim>\<open>payment.transaction_id\<close>, which raises when the object has no such attribute.
\<close>

definition PaymentRepository_create :: "env \<Rightarrow> database \<Rightarrow> Payment \<Rightarrow> (error + Payment) \<times> database" where
  "PaymentRepository_create e db payment =
     (case p_transaction_id payment of
        None \<Rightarrow> (Inl AttributeError, db)
      | Some t \<Rightarrow>
          let new_id = next_rowid (payments_seq db) (map pay_id (payments db))
          in (Inr (payment\<lparr>p_id := Some new_id\<rparr>),
              db\<lparr>payments := payments db @
                     [\<lparr>pay_id = new_id, pay_invoice_id = p_invoice_id payment,
                       pay_amount = p_amount payment, pay_payment_date = p_payment_date payment,
                       pay_payment_method = p_payment_method payment, pay_transaction_id = t,
                       pay_notes = p_notes payment, pay_created_at = env_now e\<rparr>],
                  payments_seq := new_id\<rparr>))"

definition PaymentRepository_update :: "database \<Rightarrow> Payment \<Rightarrow> (error + Payment) \<times> database" where
  "PaymentRepository_update db payment =
     (case p_transaction_id payment of
        None \<Rightarrow> (Inl AttributeError, db)
      | Some t \<Rightarrow>
          let db1 = db\<lparr>payments :=
                       map (\<lambda>r. if Some (pay_id r) = p_id payment
                                 then r\<lparr>pay_amount := p_amount payment,
                                        pay_payment_date := p_payment_date payment,
                                        pay_payment_method := p_payment_method payment,
                                        pay_transaction_id := t, pay_notes := p_notes payment\<rparr>
                                 else r)
                         (payments db)\<rparr>
          in if filter (\<lambda>r. Some (pay_id r) = p_id payment) (payments db) = []
             then (Inl DatabaseError, db1) else (Inr payment, db1))"

text \<open>\<^verbatim>\<open>BaseRepository.delete\<close> on the payments relation: whether a row went, and the rest.\<close>

definition PaymentRepository_delete :: "database \<Rightarrow> int \<Rightarrow> bool \<times> database" where
  "PaymentRepository_delete db payment_id =
     (filter (\<lambda>r. pay_id r = payment_id) (payments db) \<noteq> [],
      db\<lparr>payments := filter (\<lambda>r. pay_id r \<noteq> payment_id) (payments db)\<rparr>)"

subsection \<open>\<^verbatim>\<open>services/payment_service.py\<close>\<close>

text \<open>
  \<^verbatim>\<open>_update_invoice_payment_status\<close>. When the invoice is missing, \<^verbatim>\<open>invoice\<close> is \<^verbatim>\<open>None\<close> and
  every branch reads an attribute of it. The first and the last branch evaluate
  \<^verbatim>\<open>InvoiceStatus.PARTIALLY_PAID\<close>.
\<close>

definition update_invoice_payment_status :: "env \<Rightarrow> database \<Rightarrow> int \<Rightarrow> (error + unit) \<times> database" where
  "update_invoice_payment_status e db invoice_id =
     (case InvoiceRepository_find_by_id e db invoice_id of
        Inl err \<Rightarrow> (Inl err, db)
      | Inr None \<Rightarrow> (Inl AttributeError, db)
      | Inr (Some invoice) \<Rightarrow>
          let total_paid = get_total_paid_for_invoice db invoice_id;
              new_status =
                (if total_paid = 0
                 then (case InvoiceStatus_PARTIALLY_PAID of
                         Inl err \<Rightarrow> Inl err
                       | Inr partially_paid \<Rightarrow>
                           Inr (if i_status invoice = partially_paid then SENT
                                else i_status invoice))
                 else if total_paid \<ge> i_total_amount invoice then Inr PAID
                 else InvoiceStatus_PARTIALLY_PAID)
          in (case new_status of
                Inl err \<Rightarrow> (Inl err, db)
              | Inr st \<Rightarrow>
                  if st \<noteq> i_status invoice
                  then (Inr (), update_status e db invoice_id st)
                  else (Inr (), db)))"

text \<open>Lines 57 to 68 of \<^verbatim>\<open>record_payment\<close>: persist the payment, then set the invoice status.\<close>

definition record_payment_persist ::
  "env \<Rightarrow> database \<Rightarrow> Invoice \<Rightarrow> int \<Rightarrow> money \<Rightarrow> money \<Rightarrow> Payment \<Rightarrow> (error + Payment) \<times> database" where
  "record_payment_persist e db invoice invoice_id total_paid amount payment =
     (case PaymentRepository_create e db payment of
        (Inl err, db1) \<Rightarrow> (Inl err, db1)
      | (Inr created_payment, db1) \<Rightarrow>
          let new_total_paid = total_paid + amount
          in if new_total_paid \<ge> i_total_amount invoice
             then (Inr created_payment, update_status e db1 invoice_id PAID)
             else if i_status invoice = DRAFT
             then (case InvoiceStatus_PARTIALLY_PAID of
                     Inl err \<Rightarrow> (Inl err, db1)
                   | Inr partially_paid \<Rightarrow>
                       (Inr created_payment, update_status e db1 invoice_id partially_paid))
             else (Inr created_payment, db1))"

text \<open>
  \<^verbatim>\<open>record_payment\<close>. The constructor call names the keywords \<^verbatim>\<open>invoice_id\<close>, \<^verbatim>\<open>amount\<close>,
  \<^verbatim>\<open>payment_date\<close>, \<^verbatim>\<open>payment_method\<close>, \<^verbatim>\<open>transaction_id\<close> and \<^verbatim>\<open>notes\<close>.
\<close>

definition record_payment ::
  "env \<Rightarrow> database \<Rightarrow> int \<Rightarrow> money \<Rightarrow> date option \<Rightarrow> PaymentMethod option \<Rightarrow>
     string option \<Rightarrow> string option \<Rightarrow> (error + Payment) \<times> database" where
  "record_payment e db invoice_id amount payment_date payment_method transaction_id notes =
     (case InvoiceRepository_find_by_id e db invoice_id of
        Inl err \<Rightarrow> (Inl err, db)
      | Inr None \<Rightarrow> (Inl InvoiceNotFoundError, db)
      | Inr (Some invoice) \<Rightarrow>
          if i_status invoice = CANCELLED then (Inl ValidationError, db)
          else if amount \<le> 0 then (Inl ValidationError, db)
          else
            let total_paid = get_total_paid_for_invoice db invoice_id;
                remaining_amount = i_total_amount invoice - total_paid
            in if amount > remaining_amount then (Inl ValidationError, db)
               else
                 (case (if truthy_str transaction_id
                        then find_by_transaction_id e db (the transaction_id)
                        else Inr None) of
                    Inl err \<Rightarrow> (Inl err, db)
                  | Inr (Some existing_payment) \<Rightarrow> (Inl ValidationError, db)
                  | Inr None \<Rightarrow>
                      (case Payment_init e
                              [''invoice_id'', ''amount'', ''payment_date'', ''payment_method'',
                               ''transaction_id'', ''notes'']
                              ((Payment_defaults e)
                                 \<lparr>p_invoice_id := invoice_id, p_amount := amount,
                                  p_payment_date :=
                                    (case payment_date of None \<Rightarrow> env_today e | Some d \<Rightarrow> d),
                                  p_payment_method := payment_method,
                                  p_notes :=
                                    (if truthy_str notes then Some (strip (the notes)) else None)\<rparr>) of
                         Inl err \<Rightarrow> (Inl err, db)
                       | Inr payment \<Rightarrow>
                           record_payment_persist e db invoice invoice_id total_paid amount
                             payment)))"

text \<open>The block of \<^verbatim>\<open>update_payment\<close> that runs when \<^verbatim>\<open>amount\<close> is given.\<close>

definition update_payment_amount :: "env \<Rightarrow> database \<Rightarrow> Payment \<Rightarrow> money option \<Rightarrow> error + Payment" where
  "update_payment_amount e db payment amount =
     (case amount of
        None \<Rightarrow> Inr payment
      | Some a \<Rightarrow>
          if a \<le> 0 then Inl ValidationError
          else
            (case InvoiceRepository_find_by_id e db (p_invoice_id payment) of
               Inl err \<Rightarrow> Inl err
             | Inr None \<Rightarrow> Inl AttributeError
             | Inr (Some invoice) \<Rightarrow>
                 let total_paid = get_total_paid_for_invoice db (p_invoice_id payment);
                     new_total = total_paid - p_amount payment + a
                 in if new_total > i_total_amount invoice then Inl ValidationError
                    else Inr (payment\<lparr>p_amount := a\<rparr>)))"

text \<open>The block of \<^verbatim>\<open>update_payment\<close> that runs when \<^verbatim>\<open>transaction_id\<close> is given.\<close>

definition update_payment_transaction_id ::
  "env \<Rightarrow> database \<Rightarrow> int \<Rightarrow> Payment \<Rightarrow> string option \<Rightarrow> error + Payment" where
  "update_payment_transaction_id e db payment_id payment transaction_id =
     (case transaction_id of
        None \<Rightarrow> Inr payment
      | Some t \<Rightarrow>
          (case find_by_transaction_id e db (strip t) of
             Inl err \<Rightarrow> Inl err
           | Inr existing \<Rightarrow>
               if (case existing of None \<Rightarrow> False | Some x \<Rightarrow> p_id x \<noteq> Some payment_id)
               then Inl ValidationError
               else Inr (payment\<lparr>p_transaction_id :=
                                    Some (if t \<noteq> [] then Some (strip t) else None)\<rparr>)))"

definition update_payment ::
  "env \<Rightarrow> database \<Rightarrow> int \<Rightarrow> money option \<Rightarrow> date option \<Rightarrow> PaymentMethod option \<Rightarrow>
     string option \<Rightarrow> string option \<Rightarrow> (error + Payment) \<times> database" where
  "update_payment e db payment_id amount payment_date payment_method transaction_id notes =
     (case PaymentRepository_find_by_id e db payment_id of
        Inl err \<Rightarrow> (Inl err, db)
      | Inr None \<Rightarrow> (Inl PaymentNotFoundError, db)
      | Inr (Some payment) \<Rightarrow>
          (case update_payment_amount e db payment amount of
             Inl err \<Rightarrow> (Inl err, db)
           | Inr payment1 \<Rightarrow>
               let payment2 = (case payment_date of
                                 None \<Rightarrow> payment1
                               | Some d \<Rightarrow> payment1\<lparr>p_payment_date := d\<rparr>);
                   payment3 = (case payment_method of
                                 None \<Rightarrow> payment2
                               | Some m \<Rightarrow> payment2\<lparr>p_payment_method := Some m\<rparr>)
               in (case update_payment_transaction_id e db payment_id payment3 transaction_id of
                     Inl err \<Rightarrow> (Inl err, db)
                   | Inr payment4 \<Rightarrow>
                       let payment5 =
                             (case notes of
                                None \<Rightarrow> payment4
                              | Some n \<Rightarrow>
                                  payment4\<lparr>p_notes := (if n \<noteq> [] then Some (strip n) else None)\<rparr>)
                       in (case PaymentRepository_update db payment5 of
                             (Inl err, db1) \<Rightarrow> (Inl err, db1)
                           | (Inr updated_payment, db1) \<Rightarrow>
                               (case update_invoice_payment_status e db1 (p_invoice_id payment5) of
                                  (Inl err, db2) \<Rightarrow> (Inl err, db2)
                                | (Inr u, db2) \<Rightarrow> (Inr updated_payment, db2))))))"

definition delete_payment :: "env \<Rightarrow> database \<Rightarrow> int \<Rightarrow> (error + bool) \<times> database" where
  "delete_payment e db payment_id =
     (case PaymentRepository_find_by_id e db payment_id of
        Inl err \<Rightarrow> (Inl err, db)
      | Inr None \<Rightarrow> (Inl PaymentNotFoundError, db)
      | Inr (Some payment) \<Rightarrow>
          (case PaymentRepository_delete db payment_id of
             (success, db1) \<Rightarrow>
               if success
               then (case update_invoice_payment_status e db1 (p_invoice_id payment) of
                       (Inl err, db2) \<Rightarrow> (Inl err, db2)
                     | (Inr u, db2) \<Rightarrow> (Inr success, db2))
               else (Inr success, db1)))"

subsection \<open>\<^verbatim>\<open>services/invoice_service.py\<close>\<close>

definition add_invoice_item ::
  "env \<Rightarrow> database \<Rightarrow> int \<Rightarrow> string \<Rightarrow> money \<Rightarrow> money \<Rightarrow> (error + Invoice) \<times> database" where
  "add_invoice_item e db invoice_id description quantity rate =
     (case InvoiceRepository_find_by_id e db invoice_id of
        Inl err \<Rightarrow> (Inl err, db)
      | Inr None \<Rightarrow> (Inl InvoiceNotFoundError, db)
      | Inr (Some invoice) \<Rightarrow>
          if i_status invoice \<noteq> DRAFT then (Inl ValidationError, db)
          else
            (case add_item e description quantity rate invoice of
               (Inl err, invoice1) \<Rightarrow> (Inl err, db)
             | (Inr u, invoice1) \<Rightarrow> InvoiceRepository_update db invoice1))"

definition mark_invoice_paid :: "env \<Rightarrow> database \<Rightarrow> int \<Rightarrow> (error + Invoice) \<times> database" where
  "mark_invoice_paid e db invoice_id =
     (case InvoiceRepository_find_by_id e db invoice_id of
        Inl err \<Rightarrow> (Inl err, db)
      | Inr None \<Rightarrow> (Inl InvoiceNotFoundError, db)
      | Inr (Some invoice) \<Rightarrow>
          if i_status invoice = PAID then (Inl ValidationError, db)
          else (Inr (mark_as_paid e invoice), update_status e db invoice_id PAID))"

subsection \<open>\<^verbatim>\<open>cli/report_menu.py\<close>: the ageing of outstanding invoices\<close>

text \<open>
  \<^verbatim>\<open>ReportMenu._outstanding_invoices\<close> starts with the call
  \<^verbatim>\<open>self.report_service.get_outstanding_invoices()\<close>. \<^verbatim>\<open>ReportService\<close> defines no method
  of that name, so the attribute lookup raises.
\<close>

definition get_outstanding_invoices :: "env \<Rightarrow> database \<Rightarrow> error + Invoice list" where
  "get_outstanding_invoices e db = Inl AttributeError"

text \<open>
  The block under the comment \<^verbatim>\<open>Categorize by age\<close>, which runs on the list that the call
  returned: the loop over the list, and the list of named buckets built from its result.
\<close>

record aging =
  current :: "Invoice list"
  overdue_30 :: "Invoice list"
  overdue_60 :: "Invoice list"
  overdue_90_plus :: "Invoice list"

primrec categorize_by_age :: "date \<Rightarrow> Invoice list \<Rightarrow> aging \<Rightarrow> aging" where
  "categorize_by_age today [] = (\<lambda>a. a)"
| "categorize_by_age today (invoice # outstanding) =
     (\<lambda>a. let days_overdue = today - i_due_date invoice
          in categorize_by_age today outstanding
               (if days_overdue \<le> 0 then a\<lparr>current := current a @ [invoice]\<rparr>
                else if days_overdue \<le> 30 then a\<lparr>overdue_30 := overdue_30 a @ [invoice]\<rparr>
                else if days_overdue \<le> 60 then a\<lparr>overdue_60 := overdue_60 a @ [invoice]\<rparr>
                else a\<lparr>overdue_90_plus := overdue_90_plus a @ [invoice]\<rparr>))"

definition categories :: "date \<Rightarrow> Invoice list \<Rightarrow> (string \<times> Invoice list) list" where
  "categories today outstanding =
     (let a = categorize_by_age today outstanding
                \<lparr>current = [], overdue_30 = [], overdue_60 = [], overdue_90_plus = []\<rparr>
      in [(''Current (Not Yet Due)'', current a),
          (''1-30 Days Overdue'', overdue_30 a),
          (''31-60 Days Overdue'', overdue_60 a),
          (''60+ Days Overdue'', overdue_90_plus a)])"

text \<open>
  What \<^verbatim>\<open>_outstanding_invoices\<close> shows: the message that there are no outstanding
  invoices, the buckets that are not empty, or the message of the \<^verbatim>\<open>except\<close> clause, which
  catches every exception raised inside the \<^verbatim>\<open>try\<close> block.
\<close>

datatype report_output =
    NoOutstandingInvoices
  | AgingReport "(string \<times> Invoice list) list"
  | ReportError error

definition outstanding_invoices :: "env \<Rightarrow> database \<Rightarrow> report_output" where
  "outstanding_invoices e db =
     (case get_outstanding_invoices e db of
        Inl err \<Rightarrow> ReportError err
      | Inr outstanding \<Rightarrow>
          if outstanding = [] then NoOutstandingInvoices
          else AgingReport
                 (filter (\<lambda>(category_name, category_invoices). category_invoices \<noteq> [])
                    (categories (env_today e) outstanding)))"

subsection \<open>Sequences of payment operations\<close>

text \<open>
  The three operations of the payment service as commands, each run in the surroundings
  of its own moment. A command that raises leaves the database as the operation left it,
  and the next command runs on that database.
\<close>

datatype payment_op =
    RecordPayment int money "date option" "PaymentMethod option" "string option" "string option"
  | UpdatePayment int "money option" "date option" "PaymentMethod option" "string option"
      "string option"
  | DeletePayment int

definition apply_payment_op :: "env \<Rightarrow> database \<Rightarrow> payment_op \<Rightarrow> database" where
  "apply_payment_op e db op =
     (case op of
        RecordPayment i a d m t n \<Rightarrow> snd (record_payment e db i a d m t n)
      | UpdatePayment i a d m t n \<Rightarrow> snd (update_payment e db i a d m t n)
      | DeletePayment i \<Rightarrow> snd (delete_payment e db i))"

definition run_payment_ops :: "database \<Rightarrow> (env \<times> payment_op) list \<Rightarrow> database" where
  "run_payment_ops db ops = foldl (\<lambda>d (e, op). apply_payment_op e d op) db ops"

text \<open>The status column of an invoice, as \<^verbatim>\<open>SELECT status FROM invoices WHERE id = ?\<close> reads it.\<close>

definition stored_status :: "database \<Rightarrow> int \<Rightarrow> InvoiceStatus option" where
  "stored_status db invoice_id =
     map_option r_status (find (\<lambda>r. r_id r = invoice_id) (invoices db))"

subsection \<open>The specification's reading of the paid total\<close>

text \<open>
  The cumulative paid total in the specification's words: of the payments of the invoice,
  the sum of the amounts of those whose status is completed.
\<close>

definition completed_paid_total :: "Payment list \<Rightarrow> int \<Rightarrow> money" where
  "completed_paid_total ps invoice_id =
     sum_list (map p_amount
       (filter (\<lambda>p. p_invoice_id p = invoice_id \<and> p_status p = COMPLETED) ps))"

subsection \<open>Example data\<close>

text \<open>
  One stored invoice, number 1 of client 1, with the items Design (10 at 100.00) and Dev
  (5 at 200.00) and the stored totals 2000.00, 360.00 and 2360.00; payments of that
  invoice; and the invoice object that the repository builds from the stored rows.
\<close>

definition example_env :: env where
  "example_env = default_settings 50 20 ''20240220000000''"

definition example_invoice_row :: "InvoiceStatus \<Rightarrow> invoice_row" where
  "example_invoice_row st =
     \<lparr>r_id = 1, r_invoice_number = ''INV-20240101000000'', r_client_id = 1,
      r_project_id = None, r_subtotal = 2000, r_tax_amount = 360, r_total_amount = 2360,
      r_status = st, r_issue_date = 0, r_due_date = 30, r_notes = None,
      r_created_at = 0, r_updated_at = 0\<rparr>"

definition example_item_rows :: "item_row list" where
  "example_item_rows =
     [\<lparr>ir_id = 1, ir_invoice_id = 1, ir_description = ''Design'', ir_quantity = 10,
       ir_rate = 100, ir_amount = 1000\<rparr>,
      \<lparr>ir_id = 2, ir_invoice_id = 1, ir_description = ''Dev'', ir_quantity = 5,
       ir_rate = 200, ir_amount = 1000\<rparr>]"

definition example_payment_row :: "int \<Rightarrow> money \<Rightarrow> payment_row" where
  "example_payment_row n a =
     \<lparr>pay_id = n, pay_invoice_id = 1, pay_amount = a, pay_payment_date = 10,
      pay_payment_method = Some UPI, pay_transaction_id = None, pay_notes = None,
      pay_created_at = 10\<rparr>"

definition example_db :: "InvoiceStatus \<Rightarrow> payment_row list \<Rightarrow> database" where
  "example_db st ps =
     \<lparr>invoices = [example_invoice_row st], invoice_items = example_item_rows,
      payments = ps, payments_seq = int (length ps)\<rparr>"

definition example_loaded_invoice :: "InvoiceStatus \<Rightarrow> Invoice" where
  "example_loaded_invoice st =
     \<lparr>i_id = Some 1, i_created_at = Some 0, i_updated_at = Some 50,
      i_invoice_number = ''INV-20240101000000'', i_client_id = 1, i_project_id = None,
      i_items = [InvoiceItem_init ''Design'' 10 100, InvoiceItem_init ''Dev'' 5 200],
      i_subtotal = 0, i_tax_amount = 0, i_total_amount = 0, i_status = st,
      i_issue_date = 0, i_due_date = 30, i_notes = None\<rparr>"

text \<open>
  A payment of 100.00 on invoice 1 as its constructor returns it for the keywords
  \<^verbatim>\<open>invoice_id\<close>, \<^verbatim>\<open>client_id\<close> and \<^verbatim>\<open>amount\<close>, and the same payment after it was marked as
  failed and its attribute \<^verbatim>\<open>transaction_id\<close> was assigned \<^verbatim>\<open>None\<close>.
\<close>

definition example_payment :: Payment where
  "example_payment =
     (Payment_defaults example_env)
       \<lparr>p_invoice_id := 1, p_client_id := 1, p_amount := 100, p_net_amount := 100\<rparr>"

definition example_failed_payment :: Payment where
  "example_failed_payment =
     (mark_as_failed example_env None example_payment)\<lparr>p_transaction_id := Some None\<rparr>"

definition example_project :: "money option \<Rightarrow> money option \<Rightarrow> Project" where
  "example_project hourly_rate fixed_rate =
     \<lparr>pr_id = None, pr_created_at = Some 0, pr_updated_at = Some 0, pr_client_id = 1,
      pr_name = ''Site'', pr_description = None, pr_hourly_rate = hourly_rate,
      pr_fixed_rate = fixed_rate, pr_hours_worked = 0, pr_status = ACTIVE\<rparr>"

section \<open>Properties\<close>

subsection \<open>Evaluation of the example data\<close>

lemma strip_examples:
  "strip ''Design'' = ''Design''" "strip ''Dev'' = ''Dev''" "strip ''Site'' = ''Site''"
  "strip ''Hosting'' = ''Hosting''"
  by (simp_all add: strip_def is_space_def)

lemma example_find_by_id:
  "InvoiceRepository_find_by_id example_env (example_db st ps) 1
     = Inr (Some (example_loaded_invoice st))"
  by (simp add: InvoiceRepository_find_by_id_def example_db_def example_invoice_row_def
        Invoice_row_to_model_def Invoice_from_dict_def Invoice_post_init_def Let_def
        calculate_totals_def Invoice_update_timestamp_def load_invoice_items_def
        example_item_rows_def example_loaded_invoice_def example_env_def default_settings_def)

lemma example_total_paid:
  "get_total_paid_for_invoice (example_db st [example_payment_row 1 a]) 1 = a"
  "get_total_paid_for_invoice (example_db st []) 1 = 0"
  by (simp_all add: get_total_paid_for_invoice_def example_db_def example_payment_row_def)

lemma example_stored_status: "stored_status (example_db st ps) 1 = Some st"
  by (simp add: stored_status_def example_db_def example_invoice_row_def)

subsection \<open>Payment cancellation\<close>

lemma cancel_payment_completed:
  "p_status p = COMPLETED \<Longrightarrow> cancel_payment e reason p = (Inl ValidationError, p)"
  by (simp add: cancel_payment_def)

lemma cancel_payment_other:
  "p_status p \<noteq> COMPLETED \<Longrightarrow>
     fst (cancel_payment e reason p) = Inr () \<and>
     p_status (snd (cancel_payment e reason p)) = PAYMENT_CANCELLED"
  by (simp add: cancel_payment_def Let_def Payment_update_timestamp_def)

text \<open>
  Claim C9. Cancelling a payment whose status is completed fails with a validation error
  and leaves the payment object as it was; cancelling a payment in any other status
  (pending, failed, cancelled) does not fail and leaves the status cancelled.
\<close>

theorem C9_cancel_payment:
  "(p_status p = COMPLETED \<longrightarrow> cancel_payment e reason p = (Inl ValidationError, p)) \<and>
   (p_status p \<noteq> COMPLETED \<longrightarrow>
      fst (cancel_payment e reason p) = Inr () \<and>
      p_status (snd (cancel_payment e reason p)) = PAYMENT_CANCELLED)"
  using cancel_payment_completed [of p e reason] cancel_payment_other [of p e reason]
  by blast

text \<open>Claim C9 at a completed and at a failed payment, cancelled with a reason.\<close>

theorem C9_cancel_payment_witness:
  "cancel_payment example_env (Some ''duplicate'')
       ((Payment_defaults example_env)\<lparr>p_status := COMPLETED\<rparr>)
     = (Inl ValidationError, (Payment_defaults example_env)\<lparr>p_status := COMPLETED\<rparr>) \<and>
   fst (cancel_payment example_env (Some ''duplicate'')
          ((Payment_defaults example_env)\<lparr>p_status := FAILED\<rparr>)) = Inr () \<and>
   p_status (snd (cancel_payment example_env (Some ''duplicate'')
          ((Payment_defaults example_env)\<lparr>p_status := FAILED\<rparr>))) = PAYMENT_CANCELLED"
  using C9_cancel_payment
          [of "(Payment_defaults example_env)\<lparr>p_status := COMPLETED\<rparr>"
              example_env "Some ''duplicate''"]
        C9_cancel_payment
          [of "(Payment_defaults example_env)\<lparr>p_status := FAILED\<rparr>"
              example_env "Some ''duplicate''"]
  by (simp add: Payment_defaults_def)

subsection \<open>Project pricing\<close>

text \<open>
  Claim C8. The claim is that every constructed project has exactly one of the hourly and
  the fixed rate set, and that one positive. The constructor accepts a project with both
  rates set, 50.00 an hour and 1000.00 fixed: it returns the object unchanged, and the
  object does not satisfy the pricing invariant. The service in front of the constructor
  rejects the same pair of rates.
\<close>

theorem C8_project_both_rates:
  "Project_post_init (example_project (Some 50) (Some 1000))
     = Inr (example_project (Some 50) (Some 1000)) \<and>
   \<not> pricing_invariant (example_project (Some 50) (Some 1000)) \<and>
   create_project_pricing_check (Some 50) (Some 1000) = Inl ValidationError"
  by (simp add: Project_post_init_def pricing_invariant_def create_project_pricing_check_def
        truthy_num_def strip_examples example_project_def)

subsection \<open>Invoice totals\<close>

lemma foldl_add_sum_list: "foldl (+) a xs = (a::rat) + sum_list xs"
  by (induction xs arbitrary: a) (simp_all add: add.assoc)

lemma calculate_totals_fields:
  "i_subtotal (calculate_totals e invoice) = sum_list (map it_amount (i_items invoice))"
  "i_tax_amount (calculate_totals e invoice)
     = sum_list (map it_amount (i_items invoice)) * env_tax_rate e"
  "i_total_amount (calculate_totals e invoice)
     = sum_list (map it_amount (i_items invoice))
       + sum_list (map it_amount (i_items invoice)) * env_tax_rate e"
  "i_items (calculate_totals e invoice) = i_items invoice"
  by (simp_all add: calculate_totals_def Let_def Invoice_update_timestamp_def foldl_add_sum_list)

lemma subtotal_quantity_rate:
  assumes "\<forall>it \<in> set (i_items invoice). it_amount it = it_quantity it * it_rate it"
  shows "i_subtotal (calculate_totals e invoice)
           = (\<Sum>it \<leftarrow> i_items invoice. it_quantity it * it_rate it)"
proof -
  from assms have eq: "map it_amount (i_items invoice)
      = map (\<lambda>it. it_quantity it * it_rate it) (i_items invoice)"
    by simp
  show ?thesis
    unfolding calculate_totals_fields(1) eq by (rule refl)
qed

lemma add_item_recomputes:
  "strip description \<noteq> [] \<Longrightarrow> 0 < quantity \<Longrightarrow> 0 \<le> rate \<Longrightarrow>
   add_item e description quantity rate invoice =
     (Inr (), calculate_totals e
        (invoice\<lparr>i_items := i_items invoice @ [InvoiceItem_init description quantity rate]\<rparr>))"
  by (simp add: add_item_def)

lemma example_totals:
  "i_subtotal (snd (add_item example_env ''Dev'' 5 200
       (snd (add_item example_env ''Design'' 10 100
          ((Invoice_defaults example_env)\<lparr>i_client_id := 1\<rparr>))))) = 2000"
  "i_tax_amount (snd (add_item example_env ''Dev'' 5 200
       (snd (add_item example_env ''Design'' 10 100
          ((Invoice_defaults example_env)\<lparr>i_client_id := 1\<rparr>))))) = 360"
  "i_total_amount (snd (add_item example_env ''Dev'' 5 200
       (snd (add_item example_env ''Design'' 10 100
          ((Invoice_defaults example_env)\<lparr>i_client_id := 1\<rparr>))))) = 2360"
  by (simp_all add: add_item_def strip_examples calculate_totals_fields InvoiceItem_init_def
        Invoice_defaults_def example_env_def default_settings_def)

text \<open>
  Claim C4. Recomputing the totals of an invoice whose items carry the amount that their
  constructor gave them (quantity times rate) sets the subtotal to the sum of quantity
  times rate over the items in list order, the tax amount to the subtotal times the
  configured tax rate and the total to subtotal plus tax. Recomputing again under the same
  tax rate changes none of the three. Adding an item appends it and recomputes. With the
  tax rate 0.18, an invoice that received the items Design (10 at 100.00) and then Dev
  (5 at 200.00) has subtotal 2000.00, tax 360.00 and total 2360.00.
\<close>

theorem C4_calculate_totals:
  "((\<forall>it \<in> set (i_items invoice). it_amount it = it_quantity it * it_rate it) \<longrightarrow>
      i_subtotal (calculate_totals e invoice)
        = (\<Sum>it \<leftarrow> i_items invoice. it_quantity it * it_rate it)) \<and>
   i_tax_amount (calculate_totals e invoice)
     = i_subtotal (calculate_totals e invoice) * env_tax_rate e \<and>
   i_total_amount (calculate_totals e invoice)
     = i_subtotal (calculate_totals e invoice) + i_tax_amount (calculate_totals e invoice) \<and>
   (env_tax_rate e2 = env_tax_rate e \<longrightarrow>
      i_subtotal (calculate_totals e2 (calculate_totals e invoice))
        = i_subtotal (calculate_totals e invoice) \<and>
      i_tax_amount (calculate_totals e2 (calculate_totals e invoice))
        = i_tax_amount (calculate_totals e invoice) \<and>
      i_total_amount (calculate_totals e2 (calculate_totals e invoice))
        = i_total_amount (calculate_totals e invoice)) \<and>
   (strip description \<noteq> [] \<and> 0 < quantity \<and> 0 \<le> rate \<longrightarrow>
      add_item e description quantity rate invoice =
        (Inr (), calculate_totals e
           (invoice\<lparr>i_items := i_items invoice @ [InvoiceItem_init description quantity rate]\<rparr>))) \<and>
   i_subtotal (snd (add_item example_env ''Dev'' 5 200
       (snd (add_item example_env ''Design'' 10 100
          ((Invoice_defaults example_env)\<lparr>i_client_id := 1\<rparr>))))) = 2000 \<and>
   i_tax_amount (snd (add_item example_env ''Dev'' 5 200
       (snd (add_item example_env ''Design'' 10 100
          ((Invoice_defaults example_env)\<lparr>i_client_id := 1\<rparr>))))) = 360 \<and>
   i_total_amount (snd (add_item example_env ''Dev'' 5 200
       (snd (add_item example_env ''Design'' 10 100
          ((Invoice_defaults example_env)\<lparr>i_client_id := 1\<rparr>))))) = 2360"
proof (intro conjI impI)
  assume "\<forall>it \<in> set (i_items invoice). it_amount it = it_quantity it * it_rate it"
  then show "i_subtotal (calculate_totals e invoice)
        = (\<Sum>it \<leftarrow> i_items invoice. it_quantity it * it_rate it)"
    by (rule subtotal_quantity_rate)
next
  assume "strip description \<noteq> [] \<and> 0 < quantity \<and> 0 \<le> rate"
  then show "add_item e description quantity rate invoice =
        (Inr (), calculate_totals e
           (invoice\<lparr>i_items := i_items invoice @ [InvoiceItem_init description quantity rate]\<rparr>))"
    by (simp add: add_item_recomputes)
qed (simp_all add: calculate_totals_fields example_totals)

text \<open>
  Claim C4 at the invoice that holds the two example items, recomputed twice under the
  default settings at two different moments.
\<close>

theorem C4_calculate_totals_witness:
  "i_subtotal (calculate_totals example_env
      ((Invoice_defaults example_env)
         \<lparr>i_items := [InvoiceItem_init ''Design'' 10 100, InvoiceItem_init ''Dev'' 5 200]\<rparr>))
     = 2000 \<and>
   i_total_amount (calculate_totals (default_settings 99 21 ''20240221000000'')
      (calculate_totals example_env
        ((Invoice_defaults example_env)
           \<lparr>i_items := [InvoiceItem_init ''Design'' 10 100, InvoiceItem_init ''Dev'' 5 200]\<rparr>)))
     = 2360 \<and>
   add_item example_env ''Design'' 10 100 (Invoice_defaults example_env)
     = (Inr (), calculate_totals example_env
          ((Invoice_defaults example_env)\<lparr>i_items := [InvoiceItem_init ''Design'' 10 100]\<rparr>))"
  using C4_calculate_totals
          [of "(Invoice_defaults example_env)
                 \<lparr>i_items := [InvoiceItem_init ''Design'' 10 100, InvoiceItem_init ''Dev'' 5 200]\<rparr>"
              example_env "default_settings 99 21 ''20240221000000''" "''Design''" 10 100]
        C4_calculate_totals
          [of "Invoice_defaults example_env" example_env example_env "''Design''" 10 100]
  by (simp add: InvoiceItem_init_def Invoice_defaults_def example_env_def default_settings_def
        strip_examples calculate_totals_fields)

subsection \<open>Ageing of outstanding invoices\<close>

text \<open>
  What the ageing block computes from a list of invoices: each bucket is the sublist of
  the invoices whose day difference lies in the range of the bucket. The block reads the
  due date only, not the status.
\<close>

lemma categorize_by_age_filter:
  "categorize_by_age today outstanding a =
     \<lparr>current = current a @ filter (\<lambda>i. today - i_due_date i \<le> 0) outstanding,
      overdue_30 = overdue_30 a @
        filter (\<lambda>i. 1 \<le> today - i_due_date i \<and> today - i_due_date i \<le> 30) outstanding,
      overdue_60 = overdue_60 a @
        filter (\<lambda>i. 31 \<le> today - i_due_date i \<and> today - i_due_date i \<le> 60) outstanding,
      overdue_90_plus = overdue_90_plus a @
        filter (\<lambda>i. 60 < today - i_due_date i) outstanding\<rparr>"
proof (induction outstanding arbitrary: a)
  case Nil
  show ?case by simp
next
  case (Cons invoice outstanding)
  show ?case
    by (simp add: Cons.IH Let_def)
qed

lemma categories_filter:
  "categories today outstanding =
     [(''Current (Not Yet Due)'', filter (\<lambda>i. today - i_due_date i \<le> 0) outstanding),
      (''1-30 Days Overdue'',
         filter (\<lambda>i. 1 \<le> today - i_due_date i \<and> today - i_due_date i \<le> 30) outstanding),
      (''31-60 Days Overdue'',
         filter (\<lambda>i. 31 \<le> today - i_due_date i \<and> today - i_due_date i \<le> 60) outstanding),
      (''60+ Days Overdue'', filter (\<lambda>i. 60 < today - i_due_date i) outstanding)]"
  by (simp add: categories_def Let_def categorize_by_age_filter)

text \<open>
  Claim C7. The claim is that the report of outstanding invoices puts every invoice whose
  status is neither paid nor cancelled into the bucket of its day difference, and an
  invoice due 45 days before today into the bucket 31-60 Days Overdue. For the database
  that holds the example invoice, stored as sent and due on day 30, the report of day 75
  builds no bucket: the call that should return the outstanding invoices raises
  \<^verbatim>\<open>AttributeError\<close>, and the report shows the message of its \<^verbatim>\<open>except\<close> clause.
\<close>

theorem C7_outstanding_invoices_failing:
  "outstanding_invoices (default_settings 50 75 ''20240415000000'') (example_db SENT [])
     = ReportError AttributeError \<and>
   stored_status (example_db SENT []) 1 = Some SENT \<and>
   env_today (default_settings 50 75 ''20240415000000'') - r_due_date (example_invoice_row SENT)
     = 45"
  by (simp add: outstanding_invoices_def get_outstanding_invoices_def example_stored_status
        default_settings_def example_invoice_row_def)

subsection \<open>Loading and marking invoices\<close>

lemma find_update_status:
  "find (\<lambda>r. r_id r = i)
      (map (\<lambda>r. if r_id r = i then r\<lparr>r_status := st, r_updated_at := t\<rparr> else r) rows)
   = map_option (\<lambda>r. r\<lparr>r_status := st, r_updated_at := t\<rparr>) (find (\<lambda>r. r_id r = i) rows)"
  by (induction rows) auto

lemma Invoice_row_to_model_status:
  "Invoice_row_to_model e db row = Inr invoice \<Longrightarrow>
     Invoice_row_to_model e (update_status e2 db i st) (row\<lparr>r_status := st2, r_updated_at := t\<rparr>)
       = Inr (invoice\<lparr>i_status := st2\<rparr>)"
  by (auto simp: Invoice_row_to_model_def Invoice_from_dict_def Invoice_post_init_def Let_def
        calculate_totals_def Invoice_update_timestamp_def load_invoice_items_def update_status_def
        split: if_splits sum.splits)

lemma find_by_id_update_status:
  assumes "InvoiceRepository_find_by_id e db i = Inr (Some invoice)"
  shows "InvoiceRepository_find_by_id e (update_status e db i st) i
           = Inr (Some (invoice\<lparr>i_status := st\<rparr>))"
proof -
  from assms obtain row where
    row: "find (\<lambda>r. r_id r = i) (invoices db) = Some row"
    and m: "Invoice_row_to_model e db row = Inr invoice"
    by (auto simp: InvoiceRepository_find_by_id_def split: option.splits sum.splits)
  have f: "find (\<lambda>r. r_id r = i) (invoices (update_status e db i st))
             = Some (row\<lparr>r_status := st, r_updated_at := env_now e\<rparr>)"
    by (simp add: update_status_def find_update_status row)
  show ?thesis
    unfolding InvoiceRepository_find_by_id_def f
    by (simp add: Invoice_row_to_model_status [OF m])
qed

text \<open>
  What the repository returns for a stored invoice: the status of the row, and the totals
  that \<^verbatim>\<open>__post_init__\<close> computed from the item list that was empty at that moment.
\<close>

lemma find_by_id_of_row:
  assumes "find (\<lambda>r. r_id r = i) (invoices db) = Some row" and "0 < r_client_id row"
  shows "\<exists>invoice. InvoiceRepository_find_by_id e db i = Inr (Some invoice) \<and>
           i_status invoice = r_status row \<and> i_total_amount invoice = 0"
  using assms
  by (simp add: InvoiceRepository_find_by_id_def Invoice_row_to_model_def Invoice_from_dict_def
        Invoice_post_init_def Let_def calculate_totals_def Invoice_update_timestamp_def)

lemma loaded_total_zero:
  "InvoiceRepository_find_by_id e db i = Inr (Some invoice) \<Longrightarrow> i_total_amount invoice = 0"
  by (auto simp: InvoiceRepository_find_by_id_def Invoice_row_to_model_def Invoice_from_dict_def
        Invoice_post_init_def Let_def calculate_totals_def Invoice_update_timestamp_def
        split: option.splits sum.splits if_splits)

text \<open>
  Claim C10. For an invoice that the repository returns, the operation that marks it paid
  raises a validation error if and only if the status is already paid, and then writes
  nothing. In every other status, cancelled among them, it returns the invoice object
  marked paid, and the repository afterwards returns the invoice with the status paid.
\<close>

theorem C10_mark_invoice_paid:
  "InvoiceRepository_find_by_id e db invoice_id = Inr (Some invoice) \<Longrightarrow>
     (fst (mark_invoice_paid e db invoice_id) = Inl ValidationError \<longleftrightarrow> i_status invoice = PAID) \<and>
     (i_status invoice = PAID \<longrightarrow> snd (mark_invoice_paid e db invoice_id) = db) \<and>
     (i_status invoice \<noteq> PAID \<longrightarrow>
        fst (mark_invoice_paid e db invoice_id) = Inr (mark_as_paid e invoice) \<and>
        i_status (mark_as_paid e invoice) = PAID \<and>
        InvoiceRepository_find_by_id e (snd (mark_invoice_paid e db invoice_id)) invoice_id
          = Inr (Some (invoice\<lparr>i_status := PAID\<rparr>)))"
  by (simp add: mark_invoice_paid_def find_by_id_update_status mark_as_paid_def
        Invoice_update_timestamp_def)

text \<open>Claim C10 at the example invoice, once stored as cancelled and once as paid.\<close>

theorem C10_mark_invoice_paid_witness:
  "fst (mark_invoice_paid example_env (example_db CANCELLED []) 1)
     = Inr (mark_as_paid example_env (example_loaded_invoice CANCELLED)) \<and>
   i_status (mark_as_paid example_env (example_loaded_invoice CANCELLED)) = PAID \<and>
   InvoiceRepository_find_by_id example_env
       (snd (mark_invoice_paid example_env (example_db CANCELLED []) 1)) 1
     = Inr (Some ((example_loaded_invoice CANCELLED)\<lparr>i_status := PAID\<rparr>)) \<and>
   fst (mark_invoice_paid example_env (example_db PAID []) 1) = Inl ValidationError \<and>
   snd (mark_invoice_paid example_env (example_db PAID []) 1) = example_db PAID []"
  using C10_mark_invoice_paid [OF example_find_by_id, of CANCELLED "[]"]
        C10_mark_invoice_paid [OF example_find_by_id, of PAID "[]"]
  by (simp add: example_loaded_invoice_def)

subsection \<open>Adding invoice items\<close>

text \<open>
  Claim C6, as the specification states it, names the error \<^verbatim>\<open>InvalidOperation\<close>. Adding
  an item to the example invoice stored as sent raises \<^verbatim>\<open>ValidationError\<close>, which is a
  different error.
\<close>

theorem C6_add_invoice_item_counterexample:
  "fst (add_invoice_item example_env (example_db SENT []) 1 ''Hosting'' 1 50)
     = Inl ValidationError \<and>
   fst (add_invoice_item example_env (example_db SENT []) 1 ''Hosting'' 1 50)
     \<noteq> Inl InvalidOperation"
  by (simp add: add_invoice_item_def example_find_by_id example_loaded_invoice_def)

text \<open>
  Claim C6, amended. For an invoice that the repository returns with a status other than
  draft (sent, paid, overdue, cancelled), adding an item through the service raises
  \<^verbatim>\<open>ValidationError\<close> and leaves the database, and with it the stored items and totals of
  the invoice, as it was.
\<close>

theorem C6_add_invoice_item_non_draft:
  "InvoiceRepository_find_by_id e db invoice_id = Inr (Some invoice) \<Longrightarrow>
   i_status invoice \<noteq> DRAFT \<Longrightarrow>
   add_invoice_item e db invoice_id description quantity rate = (Inl ValidationError, db)"
  by (simp add: add_invoice_item_def)

text \<open>Claim C6, amended, at the example invoice stored as overdue.\<close>

theorem C6_add_invoice_item_non_draft_witness:
  "add_invoice_item example_env (example_db OVERDUE []) 1 ''Hosting'' 1 50
     = (Inl ValidationError, example_db OVERDUE [])"
  using C6_add_invoice_item_non_draft
          [OF example_find_by_id, of OVERDUE "[]" "''Hosting''" 1 50]
  by (simp add: example_loaded_invoice_def)

subsection \<open>Recording a payment\<close>

lemma record_payment_exceeds:
  "InvoiceRepository_find_by_id e db invoice_id = Inr (Some invoice) \<Longrightarrow>
   amount > i_total_amount invoice - get_total_paid_for_invoice db invoice_id \<Longrightarrow>
   record_payment e db invoice_id amount payment_date payment_method transaction_id memo
     = (Inl ValidationError, db)"
  by (simp add: record_payment_def Let_def)

text \<open>
  Claim C2. For an invoice that the repository returns and an amount greater than its
  remaining balance (the total amount of the invoice less the sum of its payments),
  recording the payment raises a validation error and leaves the database as it was: no
  payment is stored and the status of the invoice is not written. The same holds when the
  remaining balance is taken from the stored total of the invoice row, for a row with a
  valid client and a total that is not negative. In particular every positive amount
  fails when the remaining balance is 0.
\<close>

theorem C2_record_payment_overpayment:
  "(InvoiceRepository_find_by_id e db invoice_id = Inr (Some invoice) \<and>
    amount > i_total_amount invoice - get_total_paid_for_invoice db invoice_id \<longrightarrow>
      record_payment e db invoice_id amount payment_date payment_method transaction_id memo
        = (Inl ValidationError, db)) \<and>
   (find (\<lambda>r. r_id r = invoice_id) (invoices db) = Some row \<and> 0 < r_client_id row \<and>
    0 \<le> r_total_amount row \<and>
    amount > r_total_amount row - get_total_paid_for_invoice db invoice_id \<longrightarrow>
      record_payment e db invoice_id amount payment_date payment_method transaction_id memo
        = (Inl ValidationError, db))"
proof (intro conjI impI)
  assume "InvoiceRepository_find_by_id e db invoice_id = Inr (Some invoice) \<and>
    amount > i_total_amount invoice - get_total_paid_for_invoice db invoice_id"
  then show "record_payment e db invoice_id amount payment_date payment_method transaction_id memo
        = (Inl ValidationError, db)"
    by (simp add: record_payment_exceeds)
next
  assume a: "find (\<lambda>r. r_id r = invoice_id) (invoices db) = Some row \<and> 0 < r_client_id row \<and>
    0 \<le> r_total_amount row \<and>
    amount > r_total_amount row - get_total_paid_for_invoice db invoice_id"
  then obtain loaded where
    l: "InvoiceRepository_find_by_id e db invoice_id = Inr (Some loaded)"
    and z: "i_total_amount loaded = 0"
    using find_by_id_of_row [of invoice_id db row e] by blast
  from a z have "amount > i_total_amount loaded - get_total_paid_for_invoice db invoice_id"
    by linarith
  with l show "record_payment e db invoice_id amount payment_date payment_method transaction_id memo
        = (Inl ValidationError, db)"
    by (rule record_payment_exceeds)
qed

text \<open>
  Claim C2 at the example invoice with one payment of 2360.00, its whole stored total: a
  further payment of 0.01 is refused and nothing is written.
\<close>

theorem C2_record_payment_overpayment_witness:
  "record_payment example_env (example_db PAID [example_payment_row 1 2360]) 1 (1 / 100)
       None (Some CASH) None None
     = (Inl ValidationError, example_db PAID [example_payment_row 1 2360])"
proof -
  have f: "find (\<lambda>r. r_id r = 1) (invoices (example_db PAID [example_payment_row 1 2360]))
             = Some (example_invoice_row PAID)"
    by (simp add: example_db_def example_invoice_row_def)
  have c: "0 < r_client_id (example_invoice_row PAID)"
    and t: "r_total_amount (example_invoice_row PAID) = 2360"
    by (simp_all add: example_invoice_row_def)
  show ?thesis
    using C2_record_payment_overpayment
            [where e = example_env and db = "example_db PAID [example_payment_row 1 2360]"
               and invoice_id = 1 and row = "example_invoice_row PAID" and amount = "1 / 100"
               and invoice = "example_loaded_invoice PAID" and payment_date = None
               and payment_method = "Some CASH" and transaction_id = None and memo = None]
          f c t example_find_by_id [of PAID "[example_payment_row 1 2360]"]
    by (simp add: example_total_paid)
qed

subsection \<open>Status derivation after a payment mutation\<close>

text \<open>
  Claim C1. The claim is that after a payment is updated or deleted the status becomes
  partially paid when the paid total lies strictly between 0 and the total amount of the
  invoice, and stays as it is when the paid total is 0 and the invoice was not partially
  paid. For the example invoice stored as sent with the total 2360.00 and one payment of
  40.00, the status derivation writes the status paid. For the same invoice without
  payments it raises \<^verbatim>\<open>AttributeError\<close>.
\<close>

theorem C1_status_derivation_failing:
  "update_invoice_payment_status example_env (example_db SENT [example_payment_row 1 40]) 1
     = (Inr (), update_status example_env (example_db SENT [example_payment_row 1 40]) 1 PAID) \<and>
   stored_status
       (update_status example_env (example_db SENT [example_payment_row 1 40]) 1 PAID) 1
     = Some PAID \<and>
   update_invoice_payment_status example_env (example_db SENT []) 1
     = (Inl AttributeError, example_db SENT [])"
proof (intro conjI)
  show "update_invoice_payment_status example_env (example_db SENT [example_payment_row 1 40]) 1
     = (Inr (), update_status example_env (example_db SENT [example_payment_row 1 40]) 1 PAID)"
    by (simp add: update_invoice_payment_status_def example_find_by_id example_total_paid Let_def
          example_loaded_invoice_def)
  show "stored_status
       (update_status example_env (example_db SENT [example_payment_row 1 40]) 1 PAID) 1
     = Some PAID"
    by (simp add: stored_status_def update_status_def example_db_def example_invoice_row_def)
  show "update_invoice_payment_status example_env (example_db SENT []) 1
     = (Inl AttributeError, example_db SENT [])"
    by (simp add: update_invoice_payment_status_def example_find_by_id example_total_paid Let_def
          InvoiceStatus_PARTIALLY_PAID_def)
qed

subsection \<open>The paid total\<close>

lemma example_payment_constructed:
  "Payment_init example_env [''invoice_id'', ''client_id'', ''amount'']
     ((Payment_defaults example_env)\<lparr>p_invoice_id := 1, p_client_id := 1, p_amount := 100\<rparr>)
   = Inr example_payment"
  by (simp add: Payment_init_def Payment_fields_def Payment_post_init_def calculate_net_amount_def
        Payment_update_timestamp_def Payment_defaults_def example_payment_def)

lemma example_failed_payment_fields:
  "p_status example_failed_payment = FAILED"
  "p_invoice_id example_failed_payment = 1"
  "p_amount example_failed_payment = 100"
  "p_transaction_id example_failed_payment = Some None"
  by (simp_all add: example_failed_payment_def mark_as_failed_def Let_def truthy_str_def
        Payment_update_timestamp_def example_payment_def Payment_defaults_def)

lemma create_total_paid:
  "PaymentRepository_create e db payment = (Inr created, db_created) \<Longrightarrow>
   get_total_paid_for_invoice db_created invoice_id
     = get_total_paid_for_invoice db invoice_id
       + (if p_invoice_id payment = invoice_id then p_amount payment else 0)"
  by (auto simp: PaymentRepository_create_def Let_def get_total_paid_for_invoice_def
        split: option.splits)

text \<open>
  Claim C3, as the specification states it, lets only completed payments count. The
  example payment of 100.00 on invoice 1 is marked as failed and then stored by the
  repository: the completed payments of the invoice sum to 0, and the paid total that the
  repository computes for the invoice is 100.00.
\<close>

theorem C3_paid_total_counterexample:
  "p_status example_failed_payment = FAILED \<and>
   fst (PaymentRepository_create example_env (example_db SENT []) example_failed_payment)
     = Inr (example_failed_payment\<lparr>p_id := Some 1\<rparr>) \<and>
   get_total_paid_for_invoice
       (snd (PaymentRepository_create example_env (example_db SENT []) example_failed_payment)) 1
     = 100 \<and>
   completed_paid_total [example_failed_payment] 1 = 0"
proof (intro conjI)
  show "p_status example_failed_payment = FAILED"
    by (rule example_failed_payment_fields)
  show c: "fst (PaymentRepository_create example_env (example_db SENT []) example_failed_payment)
     = Inr (example_failed_payment\<lparr>p_id := Some 1\<rparr>)"
    by (simp add: PaymentRepository_create_def example_failed_payment_fields Let_def
          next_rowid_def example_db_def)
  have "PaymentRepository_create example_env (example_db SENT []) example_failed_payment
          = (Inr (example_failed_payment\<lparr>p_id := Some 1\<rparr>),
             snd (PaymentRepository_create example_env (example_db SENT []) example_failed_payment))"
    using c by (simp add: prod_eq_iff)
  from create_total_paid [OF this, of 1]
  show "get_total_paid_for_invoice
       (snd (PaymentRepository_create example_env (example_db SENT []) example_failed_payment)) 1
     = 100"
    by (simp add: example_total_paid example_failed_payment_fields)
  show "completed_paid_total [example_failed_payment] 1 = 0"
    by (simp add: completed_paid_total_def example_failed_payment_fields)
qed

lemma load_invoice_items_same:
  "invoice_items db_other = invoice_items db \<Longrightarrow>
   load_invoice_items db_other i = load_invoice_items db i"
  by (simp add: load_invoice_items_def)

lemma find_by_id_same_rows:
  assumes "invoices db_other = invoices db" and "invoice_items db_other = invoice_items db"
  shows "InvoiceRepository_find_by_id e db_other i = InvoiceRepository_find_by_id e db i"
  unfolding InvoiceRepository_find_by_id_def Invoice_row_to_model_def assms(1)
    load_invoice_items_same [OF assms(2)]
  by (rule refl)

lemma status_derivation_same_total:
  assumes i: "invoices db_other = invoices db" and it: "invoice_items db_other = invoice_items db"
    and t: "get_total_paid_for_invoice db_other invoice_id = get_total_paid_for_invoice db invoice_id"
  shows "fst (update_invoice_payment_status e db_other invoice_id)
           = fst (update_invoice_payment_status e db invoice_id) \<and>
         invoices (snd (update_invoice_payment_status e db_other invoice_id))
           = invoices (snd (update_invoice_payment_status e db invoice_id))"
  unfolding update_invoice_payment_status_def find_by_id_same_rows [OF i it] t
  by (simp add: Let_def update_status_def i InvoiceStatus_PARTIALLY_PAID_def
        split: sum.splits option.splits)

text \<open>
  Claim C3, amended. The cumulative paid total used for status derivation is the sum of
  the amounts of all payments stored for the invoice, whatever their status: it is 0 when
  no payment is stored, every payment that the repository stores for the invoice adds its
  amount, and status derivation depends on the stored payments through this total only
  (two databases with the same invoices and items and the same paid total for the invoice
  give the same outcome and the same invoice rows).
\<close>

theorem C3_paid_total_all_payments:
  "get_total_paid_for_invoice (db\<lparr>payments := []\<rparr>) invoice_id = 0 \<and>
   (PaymentRepository_create e db payment = (Inr created, db_created) \<longrightarrow>
      get_total_paid_for_invoice db_created invoice_id
        = get_total_paid_for_invoice db invoice_id
          + (if p_invoice_id payment = invoice_id then p_amount payment else 0)) \<and>
   (invoices db_other = invoices db \<and> invoice_items db_other = invoice_items db \<and>
    get_total_paid_for_invoice db_other invoice_id = get_total_paid_for_invoice db invoice_id \<longrightarrow>
      fst (update_invoice_payment_status e db_other invoice_id)
        = fst (update_invoice_payment_status e db invoice_id) \<and>
      invoices (snd (update_invoice_payment_status e db_other invoice_id))
        = invoices (snd (update_invoice_payment_status e db invoice_id)))"
proof (intro conjI impI)
  show "get_total_paid_for_invoice (db\<lparr>payments := []\<rparr>) invoice_id = 0"
    by (simp add: get_total_paid_for_invoice_def)
next
  assume "PaymentRepository_create e db payment = (Inr created, db_created)"
  then show "get_total_paid_for_invoice db_created invoice_id
        = get_total_paid_for_invoice db invoice_id
          + (if p_invoice_id payment = invoice_id then p_amount payment else 0)"
    by (rule create_total_paid)
next
  assume a: "invoices db_other = invoices db \<and> invoice_items db_other = invoice_items db \<and>
    get_total_paid_for_invoice db_other invoice_id = get_total_paid_for_invoice db invoice_id"
  with status_derivation_same_total [of db_other db invoice_id e]
  show "fst (update_invoice_payment_status e db_other invoice_id)
        = fst (update_invoice_payment_status e db invoice_id)"
    and "invoices (snd (update_invoice_payment_status e db_other invoice_id))
        = invoices (snd (update_invoice_payment_status e db invoice_id))"
    by simp_all
qed

text \<open>
  Claim C3, amended, at the example invoice: storing the failed payment of 100.00 raises
  the paid total from 0 to 100.00, and status derivation gives the same outcome for one
  stored payment of 100.00 as for two of 40.00 and 60.00.
\<close>

theorem C3_paid_total_all_payments_witness:
  "get_total_paid_for_invoice
       (snd (PaymentRepository_create example_env (example_db SENT []) example_failed_payment)) 1
     = 100 \<and>
   fst (update_invoice_payment_status example_env
          (example_db SENT [example_payment_row 1 40, example_payment_row 2 60]) 1)
     = fst (update_invoice_payment_status example_env
              (example_db SENT [example_payment_row 1 100]) 1)"
proof (intro conjI)
  have c: "PaymentRepository_create example_env (example_db SENT []) example_failed_payment
          = (Inr (example_failed_payment\<lparr>p_id := Some 1\<rparr>),
             snd (PaymentRepository_create example_env (example_db SENT []) example_failed_payment))"
    by (simp add: PaymentRepository_create_def example_failed_payment_fields Let_def
          next_rowid_def example_db_def)
  show "get_total_paid_for_invoice
       (snd (PaymentRepository_create example_env (example_db SENT []) example_failed_payment)) 1
     = 100"
    using C3_paid_total_all_payments
            [where db = "example_db SENT []" and e = example_env
               and payment = example_failed_payment
               and created = "example_failed_payment\<lparr>p_id := Some 1\<rparr>"
               and db_created = "snd (PaymentRepository_create example_env (example_db SENT [])
                                 example_failed_payment)"
               and invoice_id = 1 and db_other = "example_db SENT []"]
          c
    by (simp add: example_total_paid example_failed_payment_fields)
  have t: "get_total_paid_for_invoice
             (example_db SENT [example_payment_row 1 40, example_payment_row 2 60]) 1 = 100"
    by (simp add: get_total_paid_for_invoice_def example_db_def example_payment_row_def)
  have r: "invoices (example_db SENT [example_payment_row 1 40, example_payment_row 2 60])
             = invoices (example_db SENT [example_payment_row 1 100])"
          "invoice_items (example_db SENT [example_payment_row 1 40, example_payment_row 2 60])
             = invoice_items (example_db SENT [example_payment_row 1 100])"
    by (simp_all add: example_db_def)
  show "fst (update_invoice_payment_status example_env
          (example_db SENT [example_payment_row 1 40, example_payment_row 2 60]) 1)
     = fst (update_invoice_payment_status example_env
              (example_db SENT [example_payment_row 1 100]) 1)"
    using C3_paid_total_all_payments
            [where db = "example_db SENT [example_payment_row 1 100]" and e = example_env
               and db_other = "example_db SENT [example_payment_row 1 40, example_payment_row 2 60]"
               and invoice_id = 1 and payment = example_failed_payment
               and created = example_failed_payment
               and db_created = "example_db SENT []"]
          t r
    by (simp add: example_total_paid)
qed

subsection \<open>Payment operations and the invoice status\<close>

text \<open>
  A row of the payments relation has no \<^verbatim>\<open>client_id\<close> column, so rebuilding a payment
  from its row never passes the checks of the constructor.
\<close>

lemma Payment_from_dict_fails: "Payment_from_dict e row = Inl ValidationError"
  by (simp add: Payment_from_dict_def Payment_post_init_def Payment_of_row_def)

lemma payment_find_by_id_cases:
  "PaymentRepository_find_by_id e db i = Inr None \<or>
   PaymentRepository_find_by_id e db i = Inl ValidationError"
  by (simp add: PaymentRepository_find_by_id_def Payment_from_dict_fails split: option.splits)

lemma find_by_transaction_id_cases:
  "find_by_transaction_id e db t = Inr None \<or> find_by_transaction_id e db t = Inl ValidationError"
  by (simp add: find_by_transaction_id_def Payment_from_dict_fails split: option.splits)

text \<open>The constructor call of \<^verbatim>\<open>record_payment\<close> names a keyword that is not a field.\<close>

lemma record_payment_kwargs:
  "Payment_init e [''invoice_id'', ''amount'', ''payment_date'', ''payment_method'',
                   ''transaction_id'', ''notes''] p = Inl TypeError"
  by (simp add: Payment_init_def Payment_fields_def)

lemma record_payment_db: "snd (record_payment e db i a d m t n) = db"
proof -
  have "find_by_transaction_id e db (the t) = Inr None \<or>
        find_by_transaction_id e db (the t) = Inl ValidationError"
    by (rule find_by_transaction_id_cases)
  then show ?thesis
    by (auto simp: record_payment_def Let_def record_payment_kwargs
          split: sum.splits option.splits)
qed

lemma update_payment_db: "snd (update_payment e db i a d m t n) = db"
  using payment_find_by_id_cases [of e db i]
  by (auto simp: update_payment_def)

lemma delete_payment_db: "snd (delete_payment e db i) = db"
  using payment_find_by_id_cases [of e db i]
  by (auto simp: delete_payment_def)

lemma apply_payment_op_db: "apply_payment_op e db op = db"
  by (cases op)
     (simp_all add: apply_payment_op_def record_payment_db update_payment_db delete_payment_db)

lemma run_payment_ops_db: "run_payment_ops db ops = db"
  unfolding run_payment_ops_def
  by (induction ops arbitrary: db) (auto simp: apply_payment_op_db)

text \<open>
  Claim C5. An invoice whose stored status is draft keeps the status draft through every
  sequence of payment operations (recording, updating and deleting payments), whatever
  their arguments and whenever they run. (In this code each of the three operations
  raises before it writes: recording stops at the latest where the payment object is
  constructed, updating and deleting where the stored payment is rebuilt from its row.)
\<close>

theorem C5_draft_stays_draft:
  "stored_status db invoice_id = Some DRAFT \<Longrightarrow>
   stored_status (run_payment_ops db ops) invoice_id = Some DRAFT"
  by (simp add: run_payment_ops_db)

text \<open>
  Claim C5 at the example invoice stored as draft: a payment of its whole stored total is
  recorded, then the stored payment number 1 is updated and deleted.
\<close>

theorem C5_draft_stays_draft_witness:
  "stored_status
     (run_payment_ops (example_db DRAFT [example_payment_row 1 2360])
        [(example_env, RecordPayment 1 2360 None (Some UPI) None None),
         (example_env, UpdatePayment 1 (Some 100) None None None None),
         (example_env, DeletePayment 1)]) 1
   = Some DRAFT"
  using C5_draft_stays_draft
          [of "example_db DRAFT [example_payment_row 1 2360]" 1
              "[(example_env, RecordPayment 1 2360 None (Some UPI) None None),
                (example_env, UpdatePayment 1 (Some 100) None None None None),
                (example_env, DeletePayment 1)]"]
  by (simp add: example_stored_status)

end
